theory Spec2Isabelle
  imports Complex_Main
begin

section \<open>Errors and the clock\<close>

text \<open>
  The storage layer raises \<^verbatim>\<open>KeyError\<close> and \<^verbatim>\<open>ValueError\<close>, each with a formatted
  message, and \<^verbatim>\<open>sqlite3\<close> raises \<^verbatim>\<open>OverflowError\<close> when a parameter does not fit the
  statement; the remote call of the recovery loop may raise any \<^verbatim>\<open>Exception\<close>. A
  raise is the left injection of a sum, carrying the message.
\<close>

datatype error = KeyError string | ValueError string | OverflowError string | Exception string

text \<open>
  \<^verbatim>\<open>time.time()\<close> is an input of the environment: every function that reads the clock
  takes the reading \<open>now\<close> (seconds since the epoch) as an argument. The reading is
  taken as an exact real number. Python's \<^verbatim>\<open>int(x)\<close> on a float truncates towards zero.
\<close>

definition py_int :: "real \<Rightarrow> int" where
  "py_int x = (if 0 \<le> x then \<lfloor>x\<rfloor> else \<lceil>x\<rceil>)"

section \<open>sqlite\_storage.py: the stored tables\<close>

text \<open>
  Table \<^verbatim>\<open>state\<close> has the primary key \<^verbatim>\<open>id\<close> and the columns \<^verbatim>\<open>pts, date, qts, seq\<close>:
  a map from the key to the other four columns. \<^verbatim>\<open>pts\<close> and \<^verbatim>\<open>date\<close> are only ever
  written from \<^verbatim>\<open>update_state\<close>, which stores integers there; \<^verbatim>\<open>qts\<close> and \<^verbatim>\<open>seq\<close>
  may be NULL. Table \<^verbatim>\<open>peers\<close> is the list of its rows (column \<^verbatim>\<open>id\<close> is \<open>peer_id\<close>,
  column \<^verbatim>\<open>type\<close> is \<open>peer_type\<close>, the names \<^verbatim>\<open>get_input_peer\<close> gives them).
  The tables exist (\<^verbatim>\<open>create\<close> has run).
\<close>

type_synonym state_row = "int \<times> int \<times> int option \<times> int option"

record peer_row =
  peer_id :: int
  access_hash :: int
  peer_type :: string
  username :: "string option"
  phone_number :: "string option"
  last_update_on :: int

record conn =
  state_table :: "int \<rightharpoonup> state_row"
  peers :: "peer_row list"

subsection \<open>class State\<close>

record State =
  state_id :: int
  pts :: int
  date :: int
  qts :: "int option"
  seq :: "int option"

text \<open>\<^verbatim>\<open>State.default(id)\<close>: \<^verbatim>\<open>cls(id, 1, int(time.time()), None, None)\<close>.\<close>

definition State_default :: "real \<Rightarrow> int \<Rightarrow> State" where
  "State_default now i =
     \<lparr>state_id = i, pts = 1, date = py_int now, qts = None, seq = None\<rparr>"

subsection \<open>Binding the parameters of a statement\<close>

text \<open>
  \<^verbatim>\<open>conn.execute(query, params)\<close> binds each parameter before the statement runs.
  An SQLite INTEGER is a signed 64-bit number: for a Python \<^verbatim>\<open>int\<close> outside that
  range \<^verbatim>\<open>sqlite3\<close> raises \<^verbatim>\<open>OverflowError\<close>, and the statement does not run. None
  binds as NULL.
\<close>

definition in_int64 :: "int \<Rightarrow> bool" where
  "in_int64 v \<longleftrightarrow> - (2 ^ 63) \<le> v \<and> v < 2 ^ 63"

definition in_int64_opt :: "int option \<Rightarrow> bool" where
  "in_int64_opt v = (case v of None \<Rightarrow> True | Some w \<Rightarrow> in_int64 w)"

definition overflow :: error where
  "overflow = OverflowError ''Python int too large to convert to SQLite INTEGER''"

subsection \<open>class StateMixin\<close>

text \<open>
  Each method takes the connection and returns it as the method leaves it. A
  method is written in two parts. The part named \<open>_bound\<close> is the method once its
  parameters are bound: the statement and the Python code around it. The method
  itself binds first, and raises where binding does.

  \<^verbatim>\<open>get_state\<close> runs one SELECT and nothing else; a missing row gives the default
  state, a found row \<^verbatim>\<open>State(*row)\<close>.
\<close>

definition get_state_bound :: "real \<Rightarrow> int \<Rightarrow> conn \<Rightarrow> State \<times> conn" where
  "get_state_bound now i c =
     (case state_table c i of
        None \<Rightarrow> (State_default now i, c)
      | Some (p, d, q, s) \<Rightarrow> (\<lparr>state_id = i, pts = p, date = d, qts = q, seq = s\<rparr>, c))"

definition get_state :: "real \<Rightarrow> int \<Rightarrow> conn \<Rightarrow> error + State \<times> conn" where
  "get_state now i c =
     (if in_int64 i then Inr (get_state_bound now i c) else Inl overflow)"

text \<open>
  \<^verbatim>\<open>update_state(id, pts, date, qts=None, seq=None)\<close>: a \<^verbatim>\<open>date\<close> of None becomes
  \<^verbatim>\<open>int(int(time.time()))\<close>; then \<^verbatim>\<open>REPLACE INTO state\<close> writes the whole row. The
  five parameters bound are the id, the pts, the date after that substitution, the
  qts and the seq.
\<close>

definition update_state_date :: "real \<Rightarrow> int option \<Rightarrow> int" where
  "update_state_date now d = (case d of None \<Rightarrow> py_int (of_int (py_int now)) | Some v \<Rightarrow> v)"

definition update_state_bound ::
  "real \<Rightarrow> int \<Rightarrow> int \<Rightarrow> int option \<Rightarrow> int option \<Rightarrow> int option \<Rightarrow> conn \<Rightarrow> conn" where
  "update_state_bound now i p d q s c =
     (let d' = update_state_date now d
      in c\<lparr>state_table := (state_table c)(i \<mapsto> (p, d', q, s))\<rparr>)"

definition update_state ::
  "real \<Rightarrow> int \<Rightarrow> int \<Rightarrow> int option \<Rightarrow> int option \<Rightarrow> int option \<Rightarrow> conn \<Rightarrow> error + conn" where
  "update_state now i p d q s c =
     (if in_int64 i \<and> in_int64 p \<and> in_int64 (update_state_date now d) \<and>
         in_int64_opt q \<and> in_int64_opt s
      then Inr (update_state_bound now i p d q s c)
      else Inl overflow)"

text \<open>\<^verbatim>\<open>reset_state(id)\<close>: \<^verbatim>\<open>UPDATE state SET pts = 1 WHERE id = ?\<close>.\<close>

definition reset_state_bound :: "int \<Rightarrow> conn \<Rightarrow> conn" where
  "reset_state_bound i c =
     (case state_table c i of
        None \<Rightarrow> c
      | Some (p, d, q, s) \<Rightarrow> c\<lparr>state_table := (state_table c)(i \<mapsto> (1, d, q, s))\<rparr>)"

definition reset_state :: "int \<Rightarrow> conn \<Rightarrow> error + conn" where
  "reset_state i c = (if in_int64 i then Inr (reset_state_bound i c) else Inl overflow)"

subsection \<open>get\_input\_peer\<close>

text \<open>
  Modelled from the spec: the constructors of \<^verbatim>\<open>pyrogram.raw.types\<close> are declared
  in another package; each is a constructor holding the keyword arguments it is
  given (\<^verbatim>\<open>user_id, access_hash\<close>; \<^verbatim>\<open>chat_id\<close>; \<^verbatim>\<open>channel_id, access_hash\<close>).
\<close>

datatype InputPeer =
    InputPeerUser int int
  | InputPeerChat int
  | InputPeerChannel int int

text \<open>
  \<^verbatim>\<open>utils.get_channel_id\<close> is defined in another module: it is the parameter
  \<open>get_channel_id\<close> of every function that reaches it.
\<close>

definition get_input_peer ::
  "(int \<Rightarrow> int) \<Rightarrow> int \<Rightarrow> int \<Rightarrow> string \<Rightarrow> error + InputPeer" where
  "get_input_peer get_channel_id pid ah ty =
     (if ty \<in> set [''user'', ''bot''] then Inr (InputPeerUser pid ah)
      else if ty = ''group'' then Inr (InputPeerChat (- pid))
      else if ty \<in> set [''channel'', ''supergroup'']
        then Inr (InputPeerChannel (get_channel_id pid) ah)
      else Inl (ValueError (''Invalid peer type: '' @ ty)))"

subsection \<open>class SQLiteStorage\<close>




section \<open>recover.py\<close>

subsection \<open>The raw types of the difference call\<close>

text \<open>
  Modelled from the spec: the classes of \<^verbatim>\<open>pyrogram.raw\<close> are declared in another
  package. Each is a constructor with the fields the loop reads or writes:
  \<^verbatim>\<open>GetDifference(pts, date, qts, pts_total_limit)\<close>; the state
  \<^verbatim>\<open>{pts, date, seq}\<close> embedded in a difference; the four shapes of a response,
  \<^verbatim>\<open>DifferenceEmpty(date, seq)\<close>, \<^verbatim>\<open>DifferenceTooLong(pts)\<close>,
  \<^verbatim>\<open>Difference(new_messages, chats, users, state)\<close> and
  \<^verbatim>\<open>DifferenceSlice(new_messages, chats, users, intermediate_state)\<close>;
  \<^verbatim>\<open>UpdateNewMessage(message, pts, pts_count)\<close>. A user or chat is an object with
  an \<^verbatim>\<open>id\<close>; messages and the rest of a user or chat are left abstract.
\<close>

datatype GetDifference =
  GetDifference (gd_pts: int) (gd_date: int) (gd_qts: int) (gd_pts_total_limit: int)

datatype updates_State = updates_State (us_pts: int) (us_date: int) (us_seq: int)

datatype 'a raw_object = RawObject (object_id: int) (object_data: 'a)

datatype ('m, 'u, 'c) difference =
    DifferenceEmpty int int
  | DifferenceTooLong int
  | Difference "'m list" "'c raw_object list" "'u raw_object list" updates_State
  | DifferenceSlice "'m list" "'c raw_object list" "'u raw_object list" updates_State

datatype 'm UpdateNewMessage =
  UpdateNewMessage (message: 'm) (unm_pts: int) (pts_count: int)

type_synonym ('m, 'u, 'c) update =
  "'m UpdateNewMessage \<times> (int \<rightharpoonup> 'u raw_object) \<times> (int \<rightharpoonup> 'c raw_object)"

subsection \<open>The run of recover\_updates\<close>

text \<open>
  What the coroutine does to its surroundings is recorded in order in \<open>trace\<close>:
  each \<^verbatim>\<open>self.invoke(GetDifference(...))\<close>, each \<^verbatim>\<open>self.storage.update_state(...)\<close>
  with its five arguments (\<^verbatim>\<open>id, pts, date, qts, seq\<close>), and each
  \<^verbatim>\<open>updates_queue.put_nowait(...)\<close>. The record holds the storage, the dispatcher's
  queue, the trace, and the local variables of the coroutine.
\<close>

datatype ('m, 'u, 'c) effect =
    Invoke GetDifference
  | is_UpdateState: UpdateState (upd_id: int) (upd_pts: int) (upd_date: "int option")
      (upd_qts: "int option") (upd_seq: "int option")
  | PutNowait "('m, 'u, 'c) update"

record ('m, 'u, 'c) recovery =
  storage :: conn
  updates_queue :: "('m, 'u, 'c) update list"
  trace :: "('m, 'u, 'c) effect list"
  state :: State
  local_pts :: int
  local_date :: int
  local_seq :: "int option"
  message_updates_counter :: int
  other_updates_counter :: int
  prev_pts :: int

text \<open>
  How the loop is left: the \<^verbatim>\<open>break\<close> after an exception of the call (\<open>Aborted\<close>),
  the \<^verbatim>\<open>break\<close> after \<^verbatim>\<open>DifferenceEmpty\<close> (\<open>Done\<close>), the \<^verbatim>\<open>break\<close> of a slice whose
  pts repeats (\<open>StuckTerminal\<close>); \<open>Querying\<close> is the loop waiting in \<^verbatim>\<open>invoke\<close>
  for a response that the given responses do not contain.
\<close>

datatype outcome = Done | Aborted | StuckTerminal | Querying

definition invoke :: "('m, 'u, 'c) recovery \<Rightarrow> ('m, 'u, 'c) recovery" where
  "invoke st =
     st\<lparr>trace := trace st @ [Invoke (GetDifference (local_pts st) (local_date st) 0 1000000)]\<rparr>"

definition storage_update_state ::
  "real \<Rightarrow> int \<Rightarrow> int \<Rightarrow> int option \<Rightarrow> int option \<Rightarrow> int option \<Rightarrow>
   ('m, 'u, 'c) recovery \<Rightarrow> ('m, 'u, 'c) recovery" where
  "storage_update_state now i p d q s st =
     st\<lparr>storage := update_state_bound now i p d q s (storage st),
        trace := trace st @ [UpdateState i p d q s]\<rparr>"

text \<open>\<^verbatim>\<open>{u.id: u for u in xs}\<close>: a later object replaces an earlier one with its id.\<close>

definition dict_by_id :: "'a raw_object list \<Rightarrow> (int \<rightharpoonup> 'a raw_object)" where
  "dict_by_id xs = foldl (\<lambda>d x. d(object_id x \<mapsto> x)) Map.empty xs"

text \<open>The loop \<^verbatim>\<open>for message in diff.new_messages\<close>.\<close>

fun put_messages ::
  "'m list \<Rightarrow> (int \<rightharpoonup> 'u raw_object) \<Rightarrow> (int \<rightharpoonup> 'c raw_object) \<Rightarrow>
   ('m, 'u, 'c) recovery \<Rightarrow> ('m, 'u, 'c) recovery" where
  "put_messages [] users chats st = st"
| "put_messages (m # ms) users chats st =
     put_messages ms users chats
       (st\<lparr>message_updates_counter := message_updates_counter st + 1,
           updates_queue :=
             updates_queue st @ [(UpdateNewMessage m (local_pts st) (- 1), users, chats)],
           trace :=
             trace st @ [PutNowait (UpdateNewMessage m (local_pts st) (- 1), users, chats)]\<rparr>)"

text \<open>
  The loop \<^verbatim>\<open>while True\<close>, run against the results of the successive calls of
  \<^verbatim>\<open>invoke\<close>: \<open>Inl e\<close> is a call that raises, \<open>Inr diff\<close> one that returns. One
  equation per branch of the body, in the order of the source. The clock is only
  passed on to \<^verbatim>\<open>update_state\<close>, which the loop always gives a date.

  The loop is written on the bound parts of \<^verbatim>\<open>get_state\<close> and \<^verbatim>\<open>update_state\<close>:
  the id it binds is 0, and the pts, date and seq it binds come from a stored row,
  from a response (32-bit integers on the wire) or from the clock.
\<close>

fun recover_loop ::
  "real \<Rightarrow> ('m, 'u, 'c) recovery \<Rightarrow> (error + ('m, 'u, 'c) difference) list \<Rightarrow>
   outcome \<times> ('m, 'u, 'c) recovery" where
  "recover_loop now st [] = (Querying, invoke st)"
| "recover_loop now st (Inl e # rs) = (Aborted, invoke st)"
| "recover_loop now st (Inr (DifferenceEmpty d s) # rs) =
     (Done,
      storage_update_state now (state_id (state st)) (local_pts st) (Some d) None (Some s)
        (invoke st))"
| "recover_loop now st (Inr (DifferenceTooLong p) # rs) =
     recover_loop now
       (storage_update_state now (state_id (state st)) p (Some (local_date st)) None
          (local_seq st) (invoke st))
       rs"
| "recover_loop now st (Inr (Difference new_messages chats users s) # rs) =
     recover_loop now
       (put_messages new_messages (dict_by_id users) (dict_by_id chats)
          ((invoke st)\<lparr>local_pts := us_pts s, local_date := us_date s,
                       local_seq := Some (us_seq s)\<rparr>))
       rs"
| "recover_loop now st (Inr (DifferenceSlice new_messages chats users s) # rs) =
     (if prev_pts st = us_pts s
      then (StuckTerminal,
            (invoke st)\<lparr>local_pts := us_pts s, local_date := us_date s,
                        local_seq := Some (us_seq s)\<rparr>)
      else recover_loop now
             (put_messages new_messages (dict_by_id users) (dict_by_id chats)
                ((invoke st)\<lparr>local_pts := us_pts s, local_date := us_date s,
                             local_seq := Some (us_seq s), prev_pts := us_pts s\<rparr>))
             rs)"

text \<open>
  \<^verbatim>\<open>recover_updates\<close>: the state of scope 0 is read, the locals are set from it, and
  the loop runs. The result is how the loop was left and the record at that moment;
  the counters of the final log line are in it.
\<close>

definition recover_updates ::
  "real \<Rightarrow> conn \<Rightarrow> ('m, 'u, 'c) update list \<Rightarrow> (error + ('m, 'u, 'c) difference) list \<Rightarrow>
   outcome \<times> ('m, 'u, 'c) recovery" where
  "recover_updates now c queue responses =
     (case get_state_bound now 0 c of
        (st0, c') \<Rightarrow>
          recover_loop now
            \<lparr>storage = c', updates_queue = queue, trace = [], state = st0,
             local_pts = pts st0, local_date = date st0, local_seq = seq st0,
             message_updates_counter = 0, other_updates_counter = 0, prev_pts = 0\<rparr>
            responses)"

section \<open>Concrete inputs\<close>


text \<open>A connection whose state table holds one row, for scope 0, with a qts.\<close>

definition conn_example :: conn where
  "conn_example = \<lparr>state_table = [0 \<mapsto> (7, 50, Some 42, Some 2)], peers = []\<rparr>"

text \<open>
  The record of \<open>recover_updates\<close> on entry to the loop when the storage is
  \<open>conn_example\<close> and the queue is empty, with strings for messages, users and chats.
\<close>

definition init_example :: "(string, string, string) recovery" where
  "init_example =
     \<lparr>storage = conn_example, updates_queue = [], trace = [],
      state = \<lparr>state_id = 0, pts = 7, date = 50, qts = Some 42, seq = Some 2\<rparr>,
      local_pts = 7, local_date = 50, local_seq = Some 2,
      message_updates_counter = 0, other_updates_counter = 0, prev_pts = 0\<rparr>"

text \<open>Two slices with the same intermediate pts; a full difference, then an empty one.\<close>

definition slices_example :: "(error + (string, string, string) difference) list" where
  "slices_example =
     [Inr (DifferenceSlice [''m1''] [] [RawObject 1 ''u''] (updates_State 5 60 3)),
      Inr (DifferenceSlice [''m2''] [] [] (updates_State 5 61 4))]"

definition full_then_empty_example :: "(error + (string, string, string) difference) list" where
  "full_then_empty_example =
     [Inr (Difference [''m1'', ''m2''] [] [] (updates_State 10 60 3)),
      Inr (DifferenceEmpty 99 3)]"

section \<open>The cursor store\<close>

lemma py_int_near: "\<bar>x - of_int (py_int x)\<bar> < 1"
  unfolding py_int_def by (simp; linarith)

lemma in_int64_small [simp]: "in_int64 0" "in_int64 5" "in_int64 99" "in_int64 500"
  by (simp_all add: in_int64_def)

lemma update_state_date_Some [simp]: "update_state_date now (Some d) = d"
  by (simp add: update_state_date_def)

lemma not_in_int64_2_63 [simp]: "\<not> in_int64 9223372036854775808"
  by (simp add: in_int64_def)

text \<open>
  C5, as amended. For a scope id within the signed 64-bit range and with no stored
  row, \<open>get_state\<close> returns, and returns the default state: pts is 1, the date is
  the clock reading truncated to an integer, so less than one second away from the
  reading, qts and seq are None; and the connection is returned as it was, so the
  default is not stored by the read.
\<close>

theorem get_state_absent_default:
  "in_int64 i \<Longrightarrow> state_table c i = None \<Longrightarrow>
     get_state now i c =
       Inr (\<lparr>state_id = i, pts = 1, date = py_int now, qts = None, seq = None\<rparr>, c) \<and>
     \<bar>now - of_int (py_int now)\<bar> < 1"
  using py_int_near [of now] by (simp add: get_state_def get_state_bound_def State_default_def)

theorem get_state_absent_default_witness:
  "in_int64 0 \<and>
   state_table \<lparr>state_table = Map.empty, peers = []\<rparr> 0 = None \<and>
   get_state 1700000000.5 0 \<lparr>state_table = Map.empty, peers = []\<rparr> =
     Inr (\<lparr>state_id = 0, pts = 1, date = 1700000000, qts = None, seq = None\<rparr>,
          \<lparr>state_table = Map.empty, peers = []\<rparr>)"
  using get_state_absent_default [of 0 "\<lparr>state_table = Map.empty, peers = []\<rparr>" "1700000000.5"]
  by (simp add: py_int_def)

text \<open>
  The scope id \<open>2 ^ 63\<close> has no stored row, and \<open>get_state\<close> raises
  \<^verbatim>\<open>OverflowError\<close> for it: as stated for every scope id, C5 fails.
\<close>

theorem get_state_absent_default_counterexample:
  "state_table \<lparr>state_table = Map.empty, peers = []\<rparr> 9223372036854775808 = None \<and>
   get_state 1700000000 9223372036854775808 \<lparr>state_table = Map.empty, peers = []\<rparr> =
     Inl (OverflowError ''Python int too large to convert to SQLite INTEGER'')"
  by (simp add: get_state_def overflow_def)

text \<open>
  C6. For a scope with a stored row, \<open>reset_state\<close> replaces that row by the same
  row with pts 1 and changes nothing else in the connection: date, qts and seq
  are the ones stored before, as a following read shows. A second reset changes
  nothing more. The first three conjuncts say so of the statement once the id is
  bound; the last says so of the methods themselves, which bind every id within
  the signed 64-bit range, the range of the ids of stored rows.
\<close>

theorem reset_state_only_pts:
  "state_table c i = Some (p, d, q, s) \<Longrightarrow>
     reset_state_bound i c = c\<lparr>state_table := (state_table c)(i \<mapsto> (1, d, q, s))\<rparr> \<and>
     get_state_bound now i (reset_state_bound i c) =
       (\<lparr>state_id = i, pts = 1, date = d, qts = q, seq = s\<rparr>, reset_state_bound i c) \<and>
     reset_state_bound i (reset_state_bound i c) = reset_state_bound i c \<and>
     (in_int64 i \<longrightarrow>
        reset_state i c = Inr (c\<lparr>state_table := (state_table c)(i \<mapsto> (1, d, q, s))\<rparr>) \<and>
        get_state now i (c\<lparr>state_table := (state_table c)(i \<mapsto> (1, d, q, s))\<rparr>) =
          Inr (\<lparr>state_id = i, pts = 1, date = d, qts = q, seq = s\<rparr>,
               c\<lparr>state_table := (state_table c)(i \<mapsto> (1, d, q, s))\<rparr>) \<and>
        reset_state i (c\<lparr>state_table := (state_table c)(i \<mapsto> (1, d, q, s))\<rparr>) =
          Inr (c\<lparr>state_table := (state_table c)(i \<mapsto> (1, d, q, s))\<rparr>))"
  by (simp add: reset_state_def get_state_def reset_state_bound_def get_state_bound_def)

theorem reset_state_only_pts_witness:
  "state_table conn_example 0 = Some (7, 50, Some 42, Some 2) \<and>
   in_int64 0 \<and>
   reset_state 0 conn_example =
     Inr (conn_example\<lparr>state_table := (state_table conn_example)(0 \<mapsto> (1, 50, Some 42, Some 2))\<rparr>) \<and>
   get_state 1700000000 0
       (conn_example\<lparr>state_table := (state_table conn_example)(0 \<mapsto> (1, 50, Some 42, Some 2))\<rparr>) =
     Inr (\<lparr>state_id = 0, pts = 1, date = 50, qts = Some 42, seq = Some 2\<rparr>,
          conn_example\<lparr>state_table := (state_table conn_example)(0 \<mapsto> (1, 50, Some 42, Some 2))\<rparr>) \<and>
   reset_state 0
       (conn_example\<lparr>state_table := (state_table conn_example)(0 \<mapsto> (1, 50, Some 42, Some 2))\<rparr>) =
     Inr (conn_example\<lparr>state_table := (state_table conn_example)(0 \<mapsto> (1, 50, Some 42, Some 2))\<rparr>)"
proof -
  have row: "state_table conn_example 0 = Some (7, 50, Some 42, Some 2)"
    by (simp add: conn_example_def)
  have rng: "in_int64 0" by simp
  from reset_state_only_pts [OF row, of 1700000000] row rng show ?thesis
    by blast
qed

text \<open>
  C7, as amended. When the scope id and the written pts, date, qts and seq are all
  within the signed 64-bit range (a qts or seq of None is), \<open>update_state\<close> with
  that explicit date returns, and \<open>get_state\<close> on the same scope then returns a
  state holding the scope id and exactly the values written, whatever the two clock
  readings and the connection before.
\<close>

theorem update_then_get:
  "in_int64 i \<Longrightarrow> in_int64 p \<Longrightarrow> in_int64 d \<Longrightarrow> in_int64_opt q \<Longrightarrow> in_int64_opt s \<Longrightarrow>
     update_state now i p (Some d) q s c =
       Inr (c\<lparr>state_table := (state_table c)(i \<mapsto> (p, d, q, s))\<rparr>) \<and>
     get_state now' i (c\<lparr>state_table := (state_table c)(i \<mapsto> (p, d, q, s))\<rparr>) =
       Inr (\<lparr>state_id = i, pts = p, date = d, qts = q, seq = s\<rparr>,
            c\<lparr>state_table := (state_table c)(i \<mapsto> (p, d, q, s))\<rparr>)"
  by (simp add: update_state_def update_state_bound_def update_state_date_def
      get_state_def get_state_bound_def)

theorem update_then_get_witness:
  "in_int64 0 \<and> in_int64 500 \<and> in_int64 99 \<and> in_int64_opt (Some 5) \<and> in_int64_opt None \<and>
   update_state 1700000000 0 500 (Some 99) (Some 5) None conn_example =
     Inr (conn_example\<lparr>state_table := (state_table conn_example)(0 \<mapsto> (500, 99, Some 5, None))\<rparr>) \<and>
   get_state 1700000001 0
       (conn_example\<lparr>state_table := (state_table conn_example)(0 \<mapsto> (500, 99, Some 5, None))\<rparr>) =
     Inr (\<lparr>state_id = 0, pts = 500, date = 99, qts = Some 5, seq = None\<rparr>,
          conn_example\<lparr>state_table := (state_table conn_example)(0 \<mapsto> (500, 99, Some 5, None))\<rparr>)"
proof -
  have rng: "in_int64 0" "in_int64 500" "in_int64 99" "in_int64_opt (Some 5)"
    "in_int64_opt None"
    by (simp_all add: in_int64_opt_def)
  from update_then_get [OF rng, of 1700000000 conn_example 1700000001] rng show ?thesis
    by blast
qed

text \<open>
  Writing the pts \<open>2 ^ 63\<close> raises \<^verbatim>\<open>OverflowError\<close>: \<open>update_state\<close> does not
  return, nothing is written, and a read of the scope gives the row stored before:
  as stated for every tuple of written values, C7 fails.
\<close>

theorem update_then_get_counterexample:
  "update_state 1700000000 0 9223372036854775808 (Some 99) None None conn_example =
     Inl (OverflowError ''Python int too large to convert to SQLite INTEGER'') \<and>
   get_state 1700000001 0 conn_example =
     Inr (\<lparr>state_id = 0, pts = 7, date = 50, qts = Some 42, seq = Some 2\<rparr>, conn_example)"
  by (simp add: update_state_def get_state_def get_state_bound_def overflow_def
      conn_example_def)

text \<open>
  C10, as amended. For a scope id within the signed 64-bit range and with no stored
  row, \<open>reset_state\<close> returns the connection as it is: no row is created, and a
  following read at any clock reading returns the default state computed from that
  reading.
\<close>

theorem reset_state_absent:
  "in_int64 i \<Longrightarrow> state_table c i = None \<Longrightarrow>
     reset_state i c = Inr c \<and>
     get_state now i c = Inr (State_default now i, c)"
  by (simp add: reset_state_def reset_state_bound_def get_state_def get_state_bound_def)

theorem reset_state_absent_witness:
  "in_int64 5 \<and>
   state_table conn_example 5 = None \<and>
   reset_state 5 conn_example = Inr conn_example \<and>
   get_state 1700000000.5 5 conn_example =
     Inr (\<lparr>state_id = 5, pts = 1, date = 1700000000, qts = None, seq = None\<rparr>, conn_example)"
proof -
  have rng: "in_int64 5" by simp
  have absent: "state_table conn_example 5 = None"
    by (simp add: conn_example_def)
  have dflt: "State_default 1700000000.5 5 =
      \<lparr>state_id = 5, pts = 1, date = 1700000000, qts = None, seq = None\<rparr>"
    by (simp add: State_default_def py_int_def)
  from reset_state_absent [OF rng absent, of "1700000000.5"] rng absent show ?thesis
    unfolding dflt by blast
qed

text \<open>
  The scope id \<open>2 ^ 63\<close> has no stored row; \<open>reset_state\<close> raises
  \<^verbatim>\<open>OverflowError\<close> for it, and so does the \<open>get_state\<close> that follows, which
  returns no default: as stated for every scope id, C10 fails.
\<close>

theorem reset_state_absent_counterexample:
  "state_table conn_example 9223372036854775808 = None \<and>
   reset_state 9223372036854775808 conn_example =
     Inl (OverflowError ''Python int too large to convert to SQLite INTEGER'') \<and>
   get_state 1700000000 9223372036854775808 conn_example =
     Inl (OverflowError ''Python int too large to convert to SQLite INTEGER'')"
  by (simp add: reset_state_def get_state_def overflow_def conn_example_def)

section \<open>The peer directory\<close>

text \<open>
  C8. \<open>get_input_peer\<close> by kind: \<open>user\<close> and \<open>bot\<close> give \<open>InputPeerUser\<close> of the id
  and the access hash; \<open>group\<close> gives \<open>InputPeerChat\<close> of the negated id alone;
  \<open>channel\<close> and \<open>supergroup\<close> give \<open>InputPeerChannel\<close> of the channel id computed
  from the id, and the access hash; every other kind raises \<^verbatim>\<open>ValueError\<close>.
\<close>

theorem get_input_peer_by_kind:
  "(ty = ''user'' \<or> ty = ''bot'' \<longrightarrow>
      get_input_peer g pid ah ty = Inr (InputPeerUser pid ah)) \<and>
   (ty = ''group'' \<longrightarrow> get_input_peer g pid ah ty = Inr (InputPeerChat (- pid))) \<and>
   (ty = ''channel'' \<or> ty = ''supergroup'' \<longrightarrow>
      get_input_peer g pid ah ty = Inr (InputPeerChannel (g pid) ah)) \<and>
   (ty \<notin> {''user'', ''bot'', ''group'', ''channel'', ''supergroup''} \<longrightarrow>
      get_input_peer g pid ah ty = Inl (ValueError (''Invalid peer type: '' @ ty)))"
  by (auto simp add: get_input_peer_def)

theorem get_input_peer_by_kind_witness:
  "get_input_peer (\<lambda>i. - 1000000000000 - i) 7 11 ''bot'' = Inr (InputPeerUser 7 11) \<and>
   get_input_peer (\<lambda>i. - 1000000000000 - i) 7 11 ''group'' = Inr (InputPeerChat (- 7)) \<and>
   get_input_peer (\<lambda>i. - 1000000000000 - i) 7 11 ''supergroup'' =
     Inr (InputPeerChannel (- 1000000000007) 11) \<and>
   ''chat'' \<notin> {''user'', ''bot'', ''group'', ''channel'', ''supergroup''} \<and>
   get_input_peer (\<lambda>i. - 1000000000000 - i) 7 11 ''chat'' =
     Inl (ValueError ''Invalid peer type: chat'')"
  using
    get_input_peer_by_kind [of "''bot''" "\<lambda>i. - 1000000000000 - i" 7 11]
    get_input_peer_by_kind [of "''group''" "\<lambda>i. - 1000000000000 - i" 7 11]
    get_input_peer_by_kind [of "''supergroup''" "\<lambda>i. - 1000000000000 - i" 7 11]
    get_input_peer_by_kind [of "''chat''" "\<lambda>i. - 1000000000000 - i" 7 11]
  by simp





section \<open>The recovery loop\<close>

subsection \<open>What each step leaves alone\<close>

lemma put_messages_frame:
  "storage (put_messages ms us cs st) = storage st"
  "state (put_messages ms us cs st) = state st"
  "local_pts (put_messages ms us cs st) = local_pts st"
  "local_date (put_messages ms us cs st) = local_date st"
  "local_seq (put_messages ms us cs st) = local_seq st"
  "prev_pts (put_messages ms us cs st) = prev_pts st"
  "other_updates_counter (put_messages ms us cs st) = other_updates_counter st"
  by (induction ms arbitrary: st; simp)+

lemma put_messages_counter:
  "message_updates_counter (put_messages ms us cs st) =
     message_updates_counter st + int (length ms)"
  by (induction ms arbitrary: st) simp_all

lemma put_messages_queue:
  "updates_queue (put_messages ms us cs st) =
     updates_queue st @ map (\<lambda>m. (UpdateNewMessage m (local_pts st) (- 1), us, cs)) ms"
  by (induction ms arbitrary: st) simp_all

lemma put_messages_trace:
  "trace (put_messages ms us cs st) =
     trace st @ map (\<lambda>m. PutNowait (UpdateNewMessage m (local_pts st) (- 1), us, cs)) ms"
  by (induction ms arbitrary: st) simp_all

lemma invoke_frame:
  "storage (invoke st) = storage st"
  "state (invoke st) = state st"
  "local_pts (invoke st) = local_pts st"
  "local_date (invoke st) = local_date st"
  "local_seq (invoke st) = local_seq st"
  "prev_pts (invoke st) = prev_pts st"
  "updates_queue (invoke st) = updates_queue st"
  "message_updates_counter (invoke st) = message_updates_counter st"
  "trace (invoke st) =
     trace st @ [Invoke (GetDifference (local_pts st) (local_date st) 0 1000000)]"
  by (simp_all add: invoke_def)

lemma storage_update_state_frame:
  "storage (storage_update_state now i p d q s st) = update_state_bound now i p d q s (storage st)"
  "state (storage_update_state now i p d q s st) = state st"
  "local_pts (storage_update_state now i p d q s st) = local_pts st"
  "local_date (storage_update_state now i p d q s st) = local_date st"
  "local_seq (storage_update_state now i p d q s st) = local_seq st"
  "prev_pts (storage_update_state now i p d q s st) = prev_pts st"
  "updates_queue (storage_update_state now i p d q s st) = updates_queue st"
  "message_updates_counter (storage_update_state now i p d q s st) = message_updates_counter st"
  "trace (storage_update_state now i p d q s st) = trace st @ [UpdateState i p d q s]"
  by (simp_all add: storage_update_state_def)

lemma get_state_conn: "snd (get_state_bound now i c) = c"
  by (simp add: get_state_bound_def split: option.splits)

lemma get_state_id: "state_id (fst (get_state_bound now i c)) = i"
  by (simp add: get_state_bound_def State_default_def split: option.splits)

lemma get_state_row:
  "state_table c i = Some (p, d, q, s) \<Longrightarrow>
     get_state_bound now i c = (\<lparr>state_id = i, pts = p, date = d, qts = q, seq = s\<rparr>, c)"
  by (simp add: get_state_bound_def)

lemma update_state_row:
  "state_table (update_state_bound now i p (Some d) q s c) i = Some (p, d, q, s)"
  by (simp add: update_state_bound_def)

lemma filter_UpdateState_PutNowait:
  "filter is_UpdateState (map (\<lambda>m. PutNowait (f m)) ms) = []"
  by (induction ms) simp_all

text \<open>
  Where the parameters bind, the methods are their bound parts: the read of scope
  0 always, a persist whenever its id, pts, date and seq are within range.
\<close>

lemma get_state_scope_0: "get_state now 0 c = Inr (get_state_bound now 0 c)"
  by (simp add: get_state_def)

lemma update_state_binds:
  "in_int64 i \<Longrightarrow> in_int64 p \<Longrightarrow> in_int64 d \<Longrightarrow> in_int64_opt s \<Longrightarrow>
     update_state now i p (Some d) None s c = Inr (update_state_bound now i p (Some d) None s c)"
  by (simp add: update_state_def in_int64_opt_def)

subsection \<open>The trace only grows, and starts with the call\<close>

lemma recover_loop_trace_extends:
  "\<exists>ts. trace (snd (recover_loop now st rs)) = trace st @ ts"
proof (induction now st rs rule: recover_loop.induct)
  case (1 now st)
  show ?case by (simp add: invoke_frame)
next
  case (2 now st e rs)
  show ?case by (simp add: invoke_frame)
next
  case (3 now st d s rs)
  show ?case by (simp add: invoke_frame storage_update_state_frame)
next
  case (4 now st p rs)
  then show ?case by (auto simp add: invoke_frame storage_update_state_frame)
next
  case (5 now st new_messages chats users s rs)
  then show ?case by (auto simp add: invoke_frame put_messages_trace)
next
  case (6 now st new_messages chats users s rs)
  then show ?case by (auto simp add: invoke_frame put_messages_trace)
qed

lemma recover_loop_first_query:
  "\<exists>ts. trace (snd (recover_loop now st rs)) =
     trace st @ Invoke (GetDifference (local_pts st) (local_date st) 0 1000000) # ts"
proof (cases "(now, st, rs)" rule: recover_loop.cases)
  case (1 now st)
  then show ?thesis by (simp add: invoke_frame)
next
  case (2 now st e rs)
  then show ?thesis by (simp add: invoke_frame)
next
  case (3 now st d s rs)
  then show ?thesis by (simp add: invoke_frame storage_update_state_frame)
next
  case (4 now' st' p rs')
  from recover_loop_trace_extends [of now
      "storage_update_state now (state_id (state st)) p (Some (local_date st)) None
         (local_seq st) (invoke st)" rs']
  show ?thesis using 4 by (auto simp add: invoke_frame storage_update_state_frame)
next
  case (5 now' st' ms cs us s rs')
  from recover_loop_trace_extends [of now
      "put_messages ms (dict_by_id us) (dict_by_id cs)
          ((invoke st)\<lparr>local_pts := us_pts s, local_date := us_date s,
                       local_seq := Some (us_seq s)\<rparr>)" rs']
  show ?thesis using 5 by (auto simp add: invoke_frame put_messages_trace)
next
  case (6 now' st' ms cs us s rs')
  from recover_loop_trace_extends [of now
      "put_messages ms (dict_by_id us) (dict_by_id cs)
                ((invoke st)\<lparr>local_pts := us_pts s, local_date := us_date s,
                             local_seq := Some (us_seq s), prev_pts := us_pts s\<rparr>)" rs']
  show ?thesis using 6 by (auto simp add: invoke_frame put_messages_trace)
qed

subsection \<open>The persists of a run\<close>

lemma recover_loop_persists:
  "\<exists>ts. trace (snd (recover_loop now st rs)) = trace st @ ts \<and>
     list_all (\<lambda>e. upd_id e = state_id (state st) \<and> upd_qts e = None)
       (filter is_UpdateState ts) \<and>
     (if filter is_UpdateState ts = [] then storage (snd (recover_loop now st rs)) = storage st
      else \<exists>p d s. state_table (storage (snd (recover_loop now st rs))) (state_id (state st)) =
             Some (p, d, None, s))"
proof (induction now st rs rule: recover_loop.induct)
  case (1 now st)
  show ?case by (simp add: invoke_frame)
next
  case (2 now st e rs)
  show ?case by (simp add: invoke_frame)
next
  case (3 now st d s rs)
  show ?case by (simp add: invoke_frame storage_update_state_frame update_state_row)
next
  case (4 now st p rs)
  let ?i = "state_id (state st)"
  let ?st' = "storage_update_state now ?i p (Some (local_date st)) None (local_seq st)
                (invoke st)"
  let ?res = "snd (recover_loop now ?st' rs)"
  have st_eq: "state ?st' = state st"
    by (simp add: invoke_frame storage_update_state_frame)
  from 4 obtain ts where
    tr: "trace ?res = trace ?st' @ ts" and
    args: "list_all (\<lambda>e. upd_id e = state_id (state ?st') \<and> upd_qts e = None)
             (filter is_UpdateState ts)" and
    stor: "if filter is_UpdateState ts = [] then storage ?res = storage ?st'
           else \<exists>p d s. state_table (storage ?res) (state_id (state ?st')) =
                  Some (p, d, None, s)"
    by blast
  note args = args [unfolded st_eq] and stor = stor [unfolded st_eq]
  let ?ts = "[Invoke (GetDifference (local_pts st) (local_date st) 0 1000000),
              UpdateState ?i p (Some (local_date st)) None (local_seq st)] @ ts"
  have "trace ?res = trace st @ ?ts"
    using tr by (simp add: invoke_frame storage_update_state_frame)
  moreover have "list_all (\<lambda>e. upd_id e = ?i \<and> upd_qts e = None) (filter is_UpdateState ?ts)"
    using args by simp
  moreover have "\<exists>p d s. state_table (storage ?res) ?i = Some (p, d, None, s)"
  proof (cases "filter is_UpdateState ts = []")
    case True
    with stor have "storage ?res = storage ?st'" by simp
    then show ?thesis
      by (simp add: invoke_frame storage_update_state_frame update_state_row)
  next
    case False
    with stor show ?thesis by simp
  qed
  moreover have "filter is_UpdateState ?ts \<noteq> []" by simp
  ultimately show ?case
    unfolding recover_loop.simps by (intro exI [of _ ?ts]) simp
next
  case (5 now st new_messages chats users s rs)
  let ?i = "state_id (state st)"
  let ?st' = "put_messages new_messages (dict_by_id users) (dict_by_id chats)
          ((invoke st)\<lparr>local_pts := us_pts s, local_date := us_date s,
                       local_seq := Some (us_seq s)\<rparr>)"
  let ?res = "snd (recover_loop now ?st' rs)"
  let ?puts = "map (\<lambda>m. PutNowait (UpdateNewMessage m (us_pts s) (- 1),
                  dict_by_id users, dict_by_id chats)) new_messages"
  have st_eq: "state ?st' = state st" and stor_eq: "storage ?st' = storage st"
    by (simp_all add: invoke_frame put_messages_frame)
  from 5 obtain ts where
    tr: "trace ?res = trace ?st' @ ts" and
    args: "list_all (\<lambda>e. upd_id e = state_id (state ?st') \<and> upd_qts e = None)
             (filter is_UpdateState ts)" and
    stor: "if filter is_UpdateState ts = [] then storage ?res = storage ?st'
           else \<exists>p d s. state_table (storage ?res) (state_id (state ?st')) =
                  Some (p, d, None, s)"
    by blast
  note args = args [unfolded st_eq] and stor = stor [unfolded st_eq stor_eq]
  let ?ts = "Invoke (GetDifference (local_pts st) (local_date st) 0 1000000) # ?puts @ ts"
  have "trace ?res = trace st @ ?ts"
    using tr by (simp add: invoke_frame put_messages_trace)
  moreover have "filter is_UpdateState ?ts = filter is_UpdateState ts"
    by (simp add: filter_UpdateState_PutNowait)
  ultimately show ?case
    unfolding recover_loop.simps using args stor by (intro exI [of _ ?ts]) simp
next
  case (6 now st new_messages chats users s rs)
  show ?case
  proof (cases "prev_pts st = us_pts s")
    case True
    then show ?thesis by (simp add: invoke_frame)
  next
    case False
    let ?i = "state_id (state st)"
    let ?st' = "put_messages new_messages (dict_by_id users) (dict_by_id chats)
                ((invoke st)\<lparr>local_pts := us_pts s, local_date := us_date s,
                             local_seq := Some (us_seq s), prev_pts := us_pts s\<rparr>)"
    let ?res = "snd (recover_loop now ?st' rs)"
    let ?puts = "map (\<lambda>m. PutNowait (UpdateNewMessage m (us_pts s) (- 1),
                    dict_by_id users, dict_by_id chats)) new_messages"
    have st_eq: "state ?st' = state st" and stor_eq: "storage ?st' = storage st"
      by (simp_all add: invoke_frame put_messages_frame)
    from 6 [OF False] obtain ts where
      tr: "trace ?res = trace ?st' @ ts" and
      args: "list_all (\<lambda>e. upd_id e = state_id (state ?st') \<and> upd_qts e = None)
               (filter is_UpdateState ts)" and
      stor: "if filter is_UpdateState ts = [] then storage ?res = storage ?st'
             else \<exists>p d s. state_table (storage ?res) (state_id (state ?st')) =
                    Some (p, d, None, s)"
      by blast
    note args = args [unfolded st_eq] and stor = stor [unfolded st_eq stor_eq]
    let ?ts = "Invoke (GetDifference (local_pts st) (local_date st) 0 1000000) # ?puts @ ts"
    have "trace ?res = trace st @ ?ts"
      using tr by (simp add: invoke_frame put_messages_trace)
    moreover have "filter is_UpdateState ?ts = filter is_UpdateState ts"
      by (simp add: filter_UpdateState_PutNowait)
    ultimately show ?thesis
      unfolding recover_loop.simps using False args stor by (intro exI [of _ ?ts]) simp
  qed
qed

subsection \<open>The claims about the loop\<close>

text \<open>
  C1. Whatever the record of the loop, when the call returns
  \<^verbatim>\<open>DifferenceTooLong(pts=p)\<close> the loop goes on from a record \<open>st'\<close> in which: the
  call and then one \<^verbatim>\<open>update_state\<close> have been added to the trace, the row of the
  scope read back from the storage has pts \<open>p\<close> and the date and seq held in the
  local variables; the local pts, date and seq are the ones held before; and the
  next effect of the loop is the call of \<^verbatim>\<open>GetDifference\<close> with the old local pts
  (and date).
\<close>

theorem recover_loop_too_long:
  "(let q = Invoke (GetDifference (local_pts st) (local_date st) 0 1000000);
        st' = storage_update_state now (state_id (state st)) p (Some (local_date st)) None
                (local_seq st) (invoke st)
    in recover_loop now st (Inr (DifferenceTooLong p) # rs) = recover_loop now st' rs \<and>
       trace st' = trace st @
         [q, UpdateState (state_id (state st)) p (Some (local_date st)) None (local_seq st)] \<and>
       get_state_bound now' (state_id (state st)) (storage st') =
         (\<lparr>state_id = state_id (state st), pts = p, date = local_date st, qts = None,
           seq = local_seq st\<rparr>, storage st') \<and>
       local_pts st' = local_pts st \<and> local_date st' = local_date st \<and>
       local_seq st' = local_seq st \<and>
       (\<exists>ts. trace (snd (recover_loop now st (Inr (DifferenceTooLong p) # rs))) =
          trace st' @ q # ts))"
proof -
  let ?st' = "storage_update_state now (state_id (state st)) p (Some (local_date st)) None
          (local_seq st) (invoke st)"
  have step: "recover_loop now st (Inr (DifferenceTooLong p) # rs) = recover_loop now ?st' rs"
    by simp
  have tr: "trace ?st' = trace st @
       [Invoke (GetDifference (local_pts st) (local_date st) 0 1000000),
        UpdateState (state_id (state st)) p (Some (local_date st)) None (local_seq st)]"
    by (simp add: storage_update_state_frame invoke_frame)
  have rd: "get_state_bound now' (state_id (state st)) (storage ?st') =
       (\<lparr>state_id = state_id (state st), pts = p, date = local_date st, qts = None,
         seq = local_seq st\<rparr>, storage ?st')"
    by (simp add: storage_update_state_frame invoke_frame update_state_row get_state_row)
  have loc: "local_pts ?st' = local_pts st" "local_date ?st' = local_date st"
    "local_seq ?st' = local_seq st"
    by (simp_all add: storage_update_state_frame invoke_frame)
  from recover_loop_first_query [of now ?st' rs]
  have nxt: "\<exists>ts. trace (snd (recover_loop now st (Inr (DifferenceTooLong p) # rs))) =
        trace ?st' @ Invoke (GetDifference (local_pts st) (local_date st) 0 1000000) # ts"
    unfolding step loc .
  from step tr rd loc nxt show ?thesis
    unfolding Let_def by blast
qed

text \<open>
  \<^verbatim>\<open>DifferenceTooLong(pts=500)\<close> then \<^verbatim>\<open>DifferenceEmpty(date=99, seq=3)\<close>, from a stored
  row with pts 7: the second call is made with pts 7, and the row stored at the end
  has pts 7 again.
\<close>

theorem recover_loop_too_long_witness:
  "recover_loop 1700000000 init_example
     [Inr (DifferenceTooLong 500), Inr (DifferenceEmpty 99 3)] =
   (Done,
    init_example
      \<lparr>storage := conn_example\<lparr>state_table := [0 \<mapsto> (7, 99, None, Some 3)]\<rparr>,
       trace := [Invoke (GetDifference 7 50 0 1000000),
                 UpdateState 0 500 (Some 50) None (Some 2),
                 Invoke (GetDifference 7 50 0 1000000),
                 UpdateState 0 7 (Some 99) None (Some 3)]\<rparr>)"
  using recover_loop_too_long [where now = 1700000000 and st = init_example and p = 500
      and rs = "[Inr (DifferenceEmpty 99 3)]" and now' = 0]
  by (simp add: init_example_def conn_example_def invoke_def storage_update_state_def
      update_state_bound_def)

text \<open>
  C2. Two \<^verbatim>\<open>DifferenceSlice\<close> responses whose intermediate state has pts 5, whatever
  else they hold, whatever follows them, and whatever the storage, queue and clock:
  the loop is left at the second response by the \<^verbatim>\<open>break\<close> of the repeated pts;
  the storage is the one before the run and the trace has no \<^verbatim>\<open>update_state\<close>;
  the trace is the first call, one \<^verbatim>\<open>put_nowait\<close> for each new message of the first
  response (tagged pts 5, pts\_count -1), and the second call; the queue has
  grown by exactly those updates.
\<close>

theorem recover_updates_repeated_slice:
  "(case recover_updates now c queue
           (Inr (DifferenceSlice ms cs us (updates_State 5 d s)) #
            Inr (DifferenceSlice ms' cs' us' (updates_State 5 d' s')) # rest) of
      (out, st) \<Rightarrow>
        out = StuckTerminal \<and>
        storage st = c \<and>
        trace st =
          Invoke (GetDifference (pts (fst (get_state_bound now 0 c))) (date (fst (get_state_bound now 0 c)))
                    0 1000000) #
          map (\<lambda>m. PutNowait (UpdateNewMessage m 5 (- 1), dict_by_id us, dict_by_id cs)) ms @
          [Invoke (GetDifference 5 d 0 1000000)] \<and>
        filter is_UpdateState (trace st) = [] \<and>
        updates_queue st =
          queue @ map (\<lambda>m. (UpdateNewMessage m 5 (- 1), dict_by_id us, dict_by_id cs)) ms \<and>
        message_updates_counter st = int (length ms))"
proof -
  obtain st0 where g: "get_state_bound now 0 c = (st0, c)"
    using get_state_conn [of now 0 c] by (cases "get_state_bound now 0 c") simp
  show ?thesis
    by (simp add: recover_updates_def g invoke_frame put_messages_frame put_messages_trace
        put_messages_queue put_messages_counter filter_UpdateState_PutNowait)
qed

theorem recover_updates_repeated_slice_witness:
  "fst (recover_updates 1700000000 conn_example [] slices_example) = StuckTerminal \<and>
   storage (snd (recover_updates 1700000000 conn_example [] slices_example)) = conn_example \<and>
   trace (snd (recover_updates 1700000000 conn_example [] slices_example)) =
     [Invoke (GetDifference 7 50 0 1000000),
      PutNowait (UpdateNewMessage ''m1'' 5 (- 1), [1 \<mapsto> RawObject 1 ''u''], Map.empty),
      Invoke (GetDifference 5 60 0 1000000)]"
  unfolding slices_example_def
  using recover_updates_repeated_slice [where now = 1700000000 and c = conn_example
      and queue = "[]" and ms = "[''m1'']" and cs = "[] :: string raw_object list"
      and us = "[RawObject 1 ''u'']" and d = 60 and s = 3 and ms' = "[''m2'']"
      and cs' = "[]" and us' = "[]" and d' = 61 and s' = 4 and rest = "[]"]
  by (simp add: case_prod_beta get_state_bound_def conn_example_def dict_by_id_def)

text \<open>
  C3. A \<^verbatim>\<open>Difference\<close> whose state has pts 10 and whose new messages are \<open>m\<close> and
  \<open>m'\<close>, then \<^verbatim>\<open>DifferenceEmpty(date=99, seq=3)\<close>: the loop is left by the \<^verbatim>\<open>break\<close>
  after \<^verbatim>\<open>DifferenceEmpty\<close>; the trace is the first call, the two updates with pts
  10 and pts\_count -1 in the order of the messages, the second call, and then
  \<^verbatim>\<open>update_state(id=0, pts=10, date=99, seq=3)\<close>; the row of scope 0 read back is
  pts 10, date 99, qts None, seq 3.
\<close>

theorem recover_updates_full_then_empty:
  "(case recover_updates now c queue
           (Inr (Difference [m, m'] cs us (updates_State 10 d s)) #
            Inr (DifferenceEmpty 99 3) # rest) of
      (out, st) \<Rightarrow>
        out = Done \<and>
        updates_queue st =
          queue @ [(UpdateNewMessage m 10 (- 1), dict_by_id us, dict_by_id cs),
                   (UpdateNewMessage m' 10 (- 1), dict_by_id us, dict_by_id cs)] \<and>
        trace st =
          [Invoke (GetDifference (pts (fst (get_state_bound now 0 c))) (date (fst (get_state_bound now 0 c)))
                     0 1000000),
           PutNowait (UpdateNewMessage m 10 (- 1), dict_by_id us, dict_by_id cs),
           PutNowait (UpdateNewMessage m' 10 (- 1), dict_by_id us, dict_by_id cs),
           Invoke (GetDifference 10 d 0 1000000),
           UpdateState 0 10 (Some 99) None (Some 3)] \<and>
        storage st = c\<lparr>state_table := (state_table c)(0 \<mapsto> (10, 99, None, Some 3))\<rparr> \<and>
        get_state_bound now' 0 (storage st) =
          (\<lparr>state_id = 0, pts = 10, date = 99, qts = None, seq = Some 3\<rparr>, storage st) \<and>
        message_updates_counter st = 2)"
proof -
  obtain st0 where g: "get_state_bound now 0 c = (st0, c)"
    using get_state_conn [of now 0 c] by (cases "get_state_bound now 0 c") simp
  have id0: "state_id st0 = 0"
    using get_state_id [of now 0 c] by (simp add: g)
  show ?thesis
    by (simp add: recover_updates_def g id0 invoke_def storage_update_state_def
        update_state_bound_def get_state_row)
qed

theorem recover_updates_full_then_empty_witness:
  "fst (recover_updates 1700000000 conn_example [] full_then_empty_example) = Done \<and>
   trace (snd (recover_updates 1700000000 conn_example [] full_then_empty_example)) =
     [Invoke (GetDifference 7 50 0 1000000),
      PutNowait (UpdateNewMessage ''m1'' 10 (- 1), Map.empty, Map.empty),
      PutNowait (UpdateNewMessage ''m2'' 10 (- 1), Map.empty, Map.empty),
      Invoke (GetDifference 10 60 0 1000000),
      UpdateState 0 10 (Some 99) None (Some 3)] \<and>
   state_table (storage (snd (recover_updates 1700000000 conn_example []
                                full_then_empty_example))) 0 =
     Some (10, 99, None, Some 3)"
  unfolding full_then_empty_example_def
  using recover_updates_full_then_empty [where now = 1700000000 and c = conn_example
      and queue = "[]" and m = "''m1''" and m' = "''m2''"
      and cs = "[] :: string raw_object list" and us = "[] :: string raw_object list"
      and d = 60 and s = 3 and rest = "[]" and now' = 0]
  by (simp add: case_prod_beta get_state_bound_def conn_example_def dict_by_id_def)

text \<open>
  C9. Both persists of the loop write qts None. After \<^verbatim>\<open>DifferenceEmpty\<close> the stored
  row of the scope is (local pts, response date, None, response seq); after
  \<^verbatim>\<open>DifferenceTooLong\<close> it is (response pts, local date, None, local seq), whatever
  was stored before. Over a whole run of \<open>recover_updates\<close> on any responses, every
  \<^verbatim>\<open>update_state\<close> in the trace has id 0 and qts None; when there is none the
  storage is untouched, and when there is one the row of scope 0 at the end has
  qts None.
\<close>

theorem recover_persist_qts_None:
  "(case recover_loop now st (Inr (DifferenceEmpty d s) # rs) of
      (out, st') \<Rightarrow>
        trace st' = trace st @
          [Invoke (GetDifference (local_pts st) (local_date st) 0 1000000),
           UpdateState (state_id (state st)) (local_pts st) (Some d) None (Some s)] \<and>
        state_table (storage st') (state_id (state st)) = Some (local_pts st, d, None, Some s)) \<and>
   (let st' = storage_update_state now (state_id (state st)) p (Some (local_date st)) None
                (local_seq st) (invoke st)
    in recover_loop now st (Inr (DifferenceTooLong p) # rs) = recover_loop now st' rs \<and>
       state_table (storage st') (state_id (state st)) =
         Some (p, local_date st, None, local_seq st)) \<and>
   (case recover_updates now c queue rs of
      (out, st') \<Rightarrow>
        list_all (\<lambda>e. upd_id e = 0 \<and> upd_qts e = None) (filter is_UpdateState (trace st')) \<and>
        (if filter is_UpdateState (trace st') = [] then storage st' = c
         else \<exists>p d s. state_table (storage st') 0 = Some (p, d, None, s)))"
proof -
  have empty: "case recover_loop now st (Inr (DifferenceEmpty d s) # rs) of
      (out, st') \<Rightarrow>
        trace st' = trace st @
          [Invoke (GetDifference (local_pts st) (local_date st) 0 1000000),
           UpdateState (state_id (state st)) (local_pts st) (Some d) None (Some s)] \<and>
        state_table (storage st') (state_id (state st)) = Some (local_pts st, d, None, Some s)"
    by (simp add: invoke_frame storage_update_state_frame update_state_row)
  have toolong: "let st' = storage_update_state now (state_id (state st)) p
                (Some (local_date st)) None (local_seq st) (invoke st)
    in recover_loop now st (Inr (DifferenceTooLong p) # rs) = recover_loop now st' rs \<and>
       state_table (storage st') (state_id (state st)) =
         Some (p, local_date st, None, local_seq st)"
    by (simp add: Let_def invoke_frame storage_update_state_frame update_state_row)
  obtain st0 where g: "get_state_bound now 0 c = (st0, c)"
    using get_state_conn [of now 0 c] by (cases "get_state_bound now 0 c") simp
  have id0: "state_id st0 = 0"
    using get_state_id [of now 0 c] by (simp add: g)
  let ?init = "\<lparr>storage = c, updates_queue = queue, trace = [], state = st0,
             local_pts = pts st0, local_date = date st0, local_seq = seq st0,
             message_updates_counter = 0, other_updates_counter = 0, prev_pts = 0\<rparr>"
  have run: "recover_updates now c queue rs = recover_loop now ?init rs"
    by (simp add: recover_updates_def g)
  have init: "trace ?init = []" "state ?init = st0" "storage ?init = c"
    by simp_all
  from recover_loop_persists [of now ?init rs] obtain ts where
    "trace (snd (recover_loop now ?init rs)) = trace ?init @ ts" and
    "list_all (\<lambda>e. upd_id e = state_id (state ?init) \<and> upd_qts e = None)
       (filter is_UpdateState ts)" and
    "if filter is_UpdateState ts = []
     then storage (snd (recover_loop now ?init rs)) = storage ?init
     else \<exists>p d s. state_table (storage (snd (recover_loop now ?init rs)))
            (state_id (state ?init)) = Some (p, d, None, s)"
    by blast
  then have args: "list_all (\<lambda>e. upd_id e = 0 \<and> upd_qts e = None)
      (filter is_UpdateState (trace (snd (recover_loop now ?init rs))))"
    and stor: "if filter is_UpdateState (trace (snd (recover_loop now ?init rs))) = []
      then storage (snd (recover_loop now ?init rs)) = c
      else \<exists>p d s. state_table (storage (snd (recover_loop now ?init rs))) 0 =
             Some (p, d, None, s)"
    unfolding init id0 by simp_all
  from empty toolong args stor show ?thesis
    unfolding run by (simp add: case_prod_beta)
qed

text \<open>
  From a stored row (7, 50, qts 42, seq 2): after \<^verbatim>\<open>DifferenceEmpty(99, 3)\<close> the row
  is (7, 99, None, 3); after \<^verbatim>\<open>DifferenceTooLong(500)\<close> it is (500, 50, None, 2).
\<close>

theorem recover_persist_qts_None_witness:
  "state_table conn_example 0 = Some (7, 50, Some 42, Some 2) \<and>
   recover_loop 1700000000 init_example [Inr (DifferenceEmpty 99 3)] =
     (Done,
      init_example
        \<lparr>storage := conn_example\<lparr>state_table := [0 \<mapsto> (7, 99, None, Some 3)]\<rparr>,
         trace := [Invoke (GetDifference 7 50 0 1000000),
                   UpdateState 0 7 (Some 99) None (Some 3)]\<rparr>) \<and>
   recover_loop 1700000000 init_example [Inr (DifferenceTooLong 500)] =
     (Querying,
      init_example
        \<lparr>storage := conn_example\<lparr>state_table := [0 \<mapsto> (500, 50, None, Some 2)]\<rparr>,
         trace := [Invoke (GetDifference 7 50 0 1000000),
                   UpdateState 0 500 (Some 50) None (Some 2),
                   Invoke (GetDifference 7 50 0 1000000)]\<rparr>)"
  using recover_persist_qts_None [where now = 1700000000 and st = init_example and d = 99
      and s = 3 and p = 500 and c = conn_example
      and queue = "[] :: (string, string, string) update list" and rs = "[]"]
  by (simp add: init_example_def conn_example_def invoke_def storage_update_state_def
      update_state_bound_def)

end
